theory Spec2Isabelle
  imports Complex_Main "HOL-Library.Multiset"
begin

section \<open>Python values, errors and the completion service\<close>

text \<open>
  The deal finder of \<^verbatim>\<open>nano_pc_parts.py\<close> handles prices that are numbers, strings,
  lists or \<^verbatim>\<open>None\<close>. Numbers are modelled as reals (Python's \<^verbatim>\<open>int\<close> and
  \<^verbatim>\<open>float\<close> without rounding, infinities or NaN). Text is a \<open>string\<close> whose
  characters are classified as ASCII: a character outside ASCII is neither a digit, nor a
  letter, nor white space, nor a word character, and has no other case.
\<close>

datatype pyval = PNone | PNum real | PStr string | PList "pyval list"

datatype py_error = TypeError

text \<open>Python's truth value of an object, as tested by \<^verbatim>\<open>not x\<close> and \<^verbatim>\<open>if x:\<close>.\<close>

fun truthy :: "pyval \<Rightarrow> bool" where
  "truthy PNone = False"
| "truthy (PNum x) = (x \<noteq> 0)"
| "truthy (PStr s) = (s \<noteq> [])"
| "truthy (PList vs) = (vs \<noteq> [])"

text \<open>
  What \<^verbatim>\<open>OpenRouterClient._make_request\<close> hands back. It catches every exception of
  the HTTP call and returns \<^verbatim>\<open>None\<close> then, and also when the payload has no choice;
  otherwise it returns the content field of the first choice, which is a string in a
  well-formed payload and some other JSON value in a malformed one.
  \<open>NoResponse\<close> stands for \<^verbatim>\<open>None\<close> (and for any other content that is false in a
  condition, the empty string apart), \<open>Text s\<close> for a string and \<open>NonText\<close> for a
  non-string content that is true in a condition.
\<close>

datatype response = NoResponse | Text string | NonText

section \<open>The pattern \<^verbatim>\<open>\b([1-9]|10)\b\<close>\<close>

definition is_word_char :: "char \<Rightarrow> bool" where
  "is_word_char c =
     (c \<in> set ''abcdefghijklmnopqrstuvwxyzABCDEFGHIJKLMNOPQRSTUVWXYZ0123456789_'')"

text \<open>
  \<^verbatim>\<open>\b\<close> holds between two neighbouring positions of which exactly one is a word
  character; the start and the end of the text count as non-word (\<open>None\<close>).
\<close>

fun is_word_opt :: "char option \<Rightarrow> bool" where
  "is_word_opt None = False"
| "is_word_opt (Some c) = is_word_char c"

definition word_boundary :: "char option \<Rightarrow> char option \<Rightarrow> bool" where
  "word_boundary a b = (is_word_opt a \<noteq> is_word_opt b)"

fun head_opt :: "string \<Rightarrow> char option" where
  "head_opt [] = None"
| "head_opt (c # cs) = Some c"

text \<open>
  One attempt of the pattern at the current position, \<open>prev\<close> being the character
  before it. The alternative \<^verbatim>\<open>[1-9]\<close> is tried first and \<^verbatim>\<open>10\<close> on backtracking,
  as the regular-expression engine does. The result is the text of the group.
\<close>

fun match_number_here :: "char option \<Rightarrow> string \<Rightarrow> string option" where
  "match_number_here prev [] = None"
| "match_number_here prev (c # cs) =
     (if \<not> word_boundary prev (Some c) then None
      else if c \<in> set ''123456789'' \<and> word_boundary (Some c) (head_opt cs) then Some [c]
      else (case cs of
              d # ds \<Rightarrow>
                (if c = CHR ''1'' \<and> d = CHR ''0'' \<and> word_boundary (Some d) (head_opt ds)
                 then Some ''10'' else None)
            | [] \<Rightarrow> None))"


text \<open>The first element of \<^verbatim>\<open>re.findall(r'\b([1-9]|10)\b', s)\<close>, if there is one.\<close>

fun first_number_from :: "char option \<Rightarrow> string \<Rightarrow> string option" where
  "first_number_from prev [] = None"
| "first_number_from prev (c # cs) =
     (case match_number_here prev (c # cs) of
        Some g \<Rightarrow> Some g
      | None \<Rightarrow> first_number_from (Some c) cs)"

definition first_number :: "string \<Rightarrow> string option" where
  "first_number s = first_number_from None s"

text \<open>\<^verbatim>\<open>int(numbers[0])\<close> on a group of the pattern, that is, on ASCII digits.\<close>

definition digit_value :: "char \<Rightarrow> int" where
  "digit_value c = int (of_char c) - 48"

fun int_of_digits_acc :: "int \<Rightarrow> string \<Rightarrow> int" where
  "int_of_digits_acc acc [] = acc"
| "int_of_digits_acc acc (c # cs) = int_of_digits_acc (10 * acc + digit_value c) cs"

definition int_of_digits :: "string \<Rightarrow> int" where
  "int_of_digits s = int_of_digits_acc 0 s"

text \<open>
  The number that a completion answers with: the body of the \<^verbatim>\<open>try\<close> block shared by
  \<^verbatim>\<open>generate_deal_rating\<close> and \<^verbatim>\<open>_find_best_match_with_ai\<close> up to
  \<^verbatim>\<open>int(numbers[0])\<close>. On a non-string content \<^verbatim>\<open>re.findall\<close> raises, the
  \<^verbatim>\<open>except Exception\<close> clause swallows it, and control reaches the fallback like on
  no number at all.
\<close>

fun answered_number :: "response \<Rightarrow> int option" where
  "answered_number NoResponse = None"
| "answered_number NonText = None"
| "answered_number (Text s) =
     (if s = [] then None else map_option int_of_digits (first_number s))"

section \<open>The deal rater\<close>

record listing =
  source :: string
  title :: string
  description :: string
  url :: string
  price :: pyval
  image_url :: string
  user :: string
  created_at :: string

text \<open>
  \<^verbatim>\<open>OpenRouterClient.generate_deal_rating(listing, current_price)\<close>. The builtin
  \<^verbatim>\<open>float\<close> on a string is the parameter \<open>to_float\<close>, \<open>None\<close> where it raises
  \<^verbatim>\<open>ValueError\<close>; \<open>resp\<close> is what \<^verbatim>\<open>_make_request\<close> returns for the rating
  prompt. The subtraction of line 168 is outside the \<^verbatim>\<open>try\<close> block, so a
  \<^verbatim>\<open>TypeError\<close> there leaves the function.
\<close>

definition fallback_rating :: "real \<Rightarrow> int" where
  "fallback_rating price_diff =
     (if price_diff \<le> -30 then 10
      else if price_diff \<le> -20 then 9
      else if price_diff \<le> -10 then 8
      else if price_diff \<le> -5 then 7
      else if price_diff \<le> 0 then 6
      else if price_diff \<le> 5 then 5
      else if price_diff \<le> 10 then 4
      else if price_diff \<le> 20 then 3
      else if price_diff \<le> 30 then 2
      else 1)"

definition float_listing_price :: "(string \<Rightarrow> real option) \<Rightarrow> pyval \<Rightarrow> pyval" where
  "float_listing_price to_float p =
     (case p of
        PStr s \<Rightarrow> (case to_float s of Some x \<Rightarrow> PNum x | None \<Rightarrow> PNum 0)
      | _ \<Rightarrow> p)"

definition generate_deal_rating ::
  "(string \<Rightarrow> real option) \<Rightarrow> response \<Rightarrow> listing \<Rightarrow> pyval \<Rightarrow> py_error + int" where
  "generate_deal_rating to_float resp l current_price =
     (let listing_price = float_listing_price to_float (price l) in
      if \<not> truthy current_price \<or> \<not> truthy listing_price then Inr 5
      else
        (case (listing_price, current_price) of
           (PNum lp, PNum cp) \<Rightarrow>
             (let price_diff = ((lp - cp) / cp) * 100 in
              case answered_number resp of
                Some rating \<Rightarrow> Inr (max 1 (min 10 rating))
              | None \<Rightarrow> Inr (fallback_rating price_diff))
         | _ \<Rightarrow> Inl TypeError))"

section \<open>String operations\<close>

text \<open>
  \<^verbatim>\<open>str.upper\<close>, \<^verbatim>\<open>str.lower\<close>, \<^verbatim>\<open>str.strip\<close>, \<^verbatim>\<open>str.isdigit\<close>,
  \<^verbatim>\<open>str.startswith\<close>, \<^verbatim>\<open>str.split\<close> and the operator \<^verbatim>\<open>in\<close> on strings.
\<close>

definition upper_char :: "char \<Rightarrow> char" where
  "upper_char c =
     (case map_of (zip ''abcdefghijklmnopqrstuvwxyz'' ''ABCDEFGHIJKLMNOPQRSTUVWXYZ'') c of
        Some u \<Rightarrow> u
      | None \<Rightarrow> c)"


definition upper :: "string \<Rightarrow> string" where
  "upper s = map upper_char s"


text \<open>
  White space of \<^verbatim>\<open>str.strip()\<close> within ASCII: tab, line feed, vertical tab, form
  feed, carriage return, the four separators \<^verbatim>\<open>\x1c\<close> to \<^verbatim>\<open>\x1f\<close>, and space.
\<close>

definition is_space :: "char \<Rightarrow> bool" where
  "is_space c =
     (c \<in> {CHR 0x09, CHR 0x0A, CHR 0x0B, CHR 0x0C, CHR 0x0D,
            CHR 0x1C, CHR 0x1D, CHR 0x1E, CHR 0x1F, CHR 0x20})"

definition strip :: "string \<Rightarrow> string" where
  "strip s = rev (dropWhile is_space (rev (dropWhile is_space s)))"

definition is_digit :: "char \<Rightarrow> bool" where
  "is_digit c = (c \<in> set ''0123456789'')"

definition isdigit :: "string \<Rightarrow> bool" where
  "isdigit s = (s \<noteq> [] \<and> list_all is_digit s)"

definition startswith :: "string \<Rightarrow> string \<Rightarrow> bool" where
  "startswith s p = (take (length p) s = p)"

fun split :: "char \<Rightarrow> string \<Rightarrow> string list" where
  "split sep [] = [[]]"
| "split sep (c # cs) =
     (if c = sep then [] # split sep cs
      else (case split sep cs of
              p # ps \<Rightarrow> (c # p) # ps
            | [] \<Rightarrow> [[c]]))"


section \<open>The GPU identifier\<close>

text \<open>
  \<^verbatim>\<open>GPUScraper._extract_gpu_from_listing(text)\<close>. The prompt is fixed by the text; what
  varies is the service, here \<open>svc\<close>, which gives the reply to each attempt. Each call of
  \<^verbatim>\<open>_make_request\<close> and each \<^verbatim>\<open>time.sleep(1)\<close> is recorded in a trace, with the
  value of \<^verbatim>\<open>attempt\<close> at that moment.
\<close>

datatype event = Request nat | Sleep nat

text \<open>
  The outcome of the body of the loop for one reply: \<open>Return r\<close> leaves the function
  with \<open>r\<close>; \<open>Next_attempt b\<close> falls through to the end of the body, where \<open>b\<close> tells
  whether one of the two branches that sleep was taken (no reply, or an exception, which
  here can only be \<^verbatim>\<open>response.strip()\<close> on a non-string content).
\<close>

datatype outcome = Return "string option" | Next_attempt bool

definition parse_pair :: "string \<Rightarrow> string \<Rightarrow> outcome" where
  "parse_pair part0 part1 =
     (let brand0 = strip (upper part0);
          model = strip (upper part1);
          brand = (if startswith brand0 ''GEFORCE'' then ''GTX''
                   else if startswith brand0 ''QUADRO'' then ''GTX''
                   else brand0)
      in if brand \<in> set [''RTX'', ''GTX'', ''RX''] \<and> isdigit model \<and> length model \<in> set [3, 4]
         then Return (Some (brand @ '','' @ model))
         else Next_attempt False)"

fun attempt_body :: "response \<Rightarrow> outcome" where
  "attempt_body NoResponse = Next_attempt True"
| "attempt_body NonText = Next_attempt True"
| "attempt_body (Text s) =
     (if s = [] then Next_attempt True
      else
        (let line = strip s in
         if upper line = ''NONE'' then Return None
         else if CHR '','' \<in> set line then
           (case split CHR '','' line of
              [part0, part1] \<Rightarrow> parse_pair part0 part1
            | _ \<Rightarrow> Next_attempt False)
         else Next_attempt False))"

text \<open>The loop \<^verbatim>\<open>for attempt in range(3)\<close>, over the attempts still to make.\<close>

fun attempts :: "(nat \<Rightarrow> response) \<Rightarrow> nat list \<Rightarrow> event list \<Rightarrow> string option \<times> event list" where
  "attempts svc [] trace = (None, trace)"
| "attempts svc (attempt # rest) trace =
     (case attempt_body (svc attempt) of
        Return r \<Rightarrow> (r, trace @ [Request attempt])
      | Next_attempt slept \<Rightarrow>
          attempts svc rest
            (trace @ [Request attempt] @ (if slept \<and> attempt < 2 then [Sleep attempt] else [])))"

definition extract_gpu_from_listing :: "(nat \<Rightarrow> response) \<Rightarrow> string option \<times> event list" where
  "extract_gpu_from_listing svc = attempts svc [0, 1, 2] []"

section \<open>The market price resolver\<close>

text \<open>
  An entry of the price data that \<^verbatim>\<open>pc_component_mixer.py\<close> writes; the fields
  \<open>item_price\<close> and \<open>item_url\<close> are its keys \<^verbatim>\<open>price\<close> and \<^verbatim>\<open>url\<close>.
\<close>

record market_item =
  raw_text :: string
  item_price :: pyval
  item_url :: string



section \<open>Price extraction\<close>






section \<open>Deduplication and the listings of a run\<close>










section \<open>The final order\<close>

text \<open>
  A result of the per-listing processing: the listing it was made from (the result copies
  its fields), then the keys \<^verbatim>\<open>current_price\<close>, \<^verbatim>\<open>ai_keywords\<close>, \<^verbatim>\<open>rating\<close> and
  \<^verbatim>\<open>matched_market_item\<close>.
\<close>

record scored_deal =
  deal_listing :: listing
  deal_current_price :: "real option"
  deal_ai_keywords :: "string list"
  rating :: int
  deal_matched_item :: "market_item option"

text \<open>
  \<^verbatim>\<open>final_results.sort(key=lambda x: x['rating'], reverse=True)\<close>. Python's sort is
  stable and stays so with \<^verbatim>\<open>reverse=True\<close>: it orders by descending key and leaves
  elements of equal key in their order. That is insertion by ascending negated rating.
\<close>

definition sort_final_results :: "scored_deal list \<Rightarrow> scored_deal list" where
  "sort_final_results final_results = sort_key (\<lambda>x. - rating x) final_results"

section \<open>Example inputs\<close>

text \<open>A service that answers the attempts with the given replies, in order, and then no more.\<close>

definition replies :: "response list \<Rightarrow> nat \<Rightarrow> response" where
  "replies rs n = (if n < length rs then rs ! n else NoResponse)"

definition priced_listing :: "pyval \<Rightarrow> listing" where
  "priced_listing p =
     \<lparr>source = ''vinted'', title = ''RTX 3070 8GB like new'', description = '''', url = '''',
      price = p, image_url = '''', user = '''', created_at = ''''\<rparr>"

text \<open>
  An instance of the builtin \<^verbatim>\<open>float\<close> for examples: it reads an unsigned integer
  literal and rejects every other string.
\<close>

definition float_of_integer_literal :: "string \<Rightarrow> real option" where
  "float_of_integer_literal s = (if isdigit s then Some (real_of_int (int_of_digits s)) else None)"



definition rated_deal :: "string \<Rightarrow> int \<Rightarrow> scored_deal" where
  "rated_deal t r =
     \<lparr>deal_listing = (priced_listing PNone)\<lparr>title := t\<rparr>, deal_current_price = None,
      deal_ai_keywords = [], rating = r, deal_matched_item = None\<rparr>"

section \<open>Properties of the deal rater\<close>







text \<open>
  Claim C4, as the code has it. When the market price or the listing price is \<^verbatim>\<open>None\<close> or
  zero, or the listing price is a string that \<^verbatim>\<open>float\<close> rejects or reads as zero, the
  rater returns 5, whatever the other price and the completion service.
\<close>

theorem rate_default:
  assumes "current_price = PNone \<or> current_price = PNum 0 \<or> price l = PNone \<or> price l = PNum 0 \<or>
    (\<exists>s. price l = PStr s \<and> (to_float s = None \<or> to_float s = Some 0))"
  shows "generate_deal_rating to_float resp l current_price = Inr 5"
proof -
  from assms have "\<not> truthy current_price \<or> \<not> truthy (float_listing_price to_float (price l))"
    by (auto simp: float_listing_price_def)
  then show ?thesis
    by (simp add: generate_deal_rating_def Let_def)
qed

theorem rate_default_witness:
  "generate_deal_rating float_of_integer_literal (Text ''9'') (priced_listing PNone) (PNum 100) = Inr 5 \<and>
   generate_deal_rating float_of_integer_literal (Text ''9'') (priced_listing (PStr ''12 EUR'')) (PNum 100) = Inr 5 \<and>
   generate_deal_rating float_of_integer_literal (Text ''9'') (priced_listing (PNum 80)) (PNum 0) = Inr 5"
proof -
  have "float_of_integer_literal ''12 EUR'' = None"
    by (simp add: float_of_integer_literal_def isdigit_def is_digit_def)
  then show ?thesis
    using rate_default [of "PNum 100" "priced_listing PNone" float_of_integer_literal "Text ''9''"]
      rate_default [of "PNum 100" "priced_listing (PStr ''12 EUR'')" float_of_integer_literal "Text ''9''"]
      rate_default [of "PNum 0" "priced_listing (PNum 80)" float_of_integer_literal "Text ''9''"]
    by (simp add: priced_listing_def)
qed

text \<open>
  A negative price is true in the test of line 164: the rater goes on to the price
  difference, and without a completion the band of -110 (or of -150) is 10.
\<close>

theorem rate_negative_price_counterexample:
  "generate_deal_rating float_of_integer_literal NoResponse (priced_listing (PNum (-10))) (PNum 100)
     = Inr 10 \<and>
   generate_deal_rating float_of_integer_literal NoResponse (priced_listing (PNum 50)) (PNum (-100))
     = Inr 10"
  by (simp add: generate_deal_rating_def priced_listing_def float_listing_price_def fallback_rating_def)

section \<open>Properties of the GPU identifier\<close>























lemmas str_simps =
  strip_def upper_def upper_char_def is_space_def startswith_def isdigit_def is_digit_def



text \<open>
  Claim C10. A brand token that starts with QUADRO once in upper case and stripped becomes GTX
  before the validation, as one that starts with GEFORCE does: both give the same outcome, and
  with a model of three or four digits that outcome is the identity \<^verbatim>\<open>GTX,MODEL\<close>.
\<close>

theorem quadro_as_geforce:
  assumes "startswith (strip (upper part0)) ''QUADRO''"
    and "startswith (strip (upper geforce)) ''GEFORCE''"
  shows "parse_pair part0 part1 = parse_pair geforce part1 \<and>
    (isdigit (strip (upper part1)) \<and> (length (strip (upper part1)) = 3 \<or> length (strip (upper part1)) = 4) \<longrightarrow>
       parse_pair part0 part1 = Return (Some (''GTX,'' @ strip (upper part1))))"
  using assms by (auto simp: parse_pair_def Let_def)

text \<open>The reply \<^verbatim>\<open>Quadro,2000\<close> gives the identity \<^verbatim>\<open>GTX,2000\<close> on the first attempt.\<close>

theorem quadro_as_geforce_witness:
  "extract_gpu_from_listing (replies [Text ''Quadro,2000'']) = (Some ''GTX,2000'', [Request 0]) \<and>
   extract_gpu_from_listing (replies [Text ''Quadro,2000''])
     = extract_gpu_from_listing (replies [Text ''GeForce,2000''])"
proof -
  have q: "startswith (strip (upper ''Quadro'')) ''QUADRO''"
    and g: "startswith (strip (upper ''GeForce'')) ''GEFORCE''"
    by (simp_all add: str_simps)
  have m: "strip (upper ''2000'') = ''2000''" by (simp add: str_simps)
  have d: "isdigit ''2000''" by (simp add: str_simps)
  note qg = quadro_as_geforce [OF q g, of "''2000''"]
  from qg have same: "parse_pair ''Quadro'' ''2000'' = parse_pair ''GeForce'' ''2000''"
    by (rule conjunct1)
  from qg have "isdigit (strip (upper ''2000'')) \<and>
      (length (strip (upper ''2000'')) = 3 \<or> length (strip (upper ''2000'')) = 4) \<longrightarrow>
      parse_pair ''Quadro'' ''2000'' = Return (Some (''GTX,'' @ strip (upper ''2000'')))"
    by (rule conjunct2)
  then have pq: "parse_pair ''Quadro'' ''2000'' = Return (Some ''GTX,2000'')"
    by (simp add: m d)
  with same have pg: "parse_pair ''GeForce'' ''2000'' = Return (Some ''GTX,2000'')"
    by simp
  have sq: "strip ''Quadro,2000'' = ''Quadro,2000''" and sg: "strip ''GeForce,2000'' = ''GeForce,2000''"
    by (simp_all add: strip_def is_space_def)
  have uq: "upper ''Quadro,2000'' \<noteq> ''NONE''" and ug: "upper ''GeForce,2000'' \<noteq> ''NONE''"
    by (simp_all add: upper_def)
  show ?thesis
    by (simp add: extract_gpu_from_listing_def replies_def sq sg uq ug pq pg)
qed

section \<open>Properties of the market price resolver\<close>











section \<open>Properties of the price extraction\<close>











section \<open>Properties of the deduplication\<close>



























section \<open>Properties of the final order\<close>

text \<open>
  Claim C9. The final results are the scored deals in descending order of rating, the same
  deals as before the sort, and deals of equal rating keep their order: for every rating, the
  deals of that rating appear in the output as they did in the input. Ratings 5, 8, 5 come out
  as the 8, the first 5, the second 5.
\<close>

theorem final_order:
  "sorted_wrt (\<lambda>a b. rating b \<le> rating a) (sort_final_results final_results) \<and>
   mset (sort_final_results final_results) = mset final_results \<and>
   (\<forall>k. filter (\<lambda>x. rating x = k) (sort_final_results final_results)
        = filter (\<lambda>x. rating x = k) final_results) \<and>
   sort_final_results [rated_deal ''first'' 5, rated_deal ''second'' 8, rated_deal ''third'' 5]
     = [rated_deal ''second'' 8, rated_deal ''first'' 5, rated_deal ''third'' 5]"
proof (intro conjI allI)
  have "sorted (map (\<lambda>x. - rating x) (sort_key (\<lambda>x. - rating x) final_results))"
    by (rule sorted_sort_key)
  then show "sorted_wrt (\<lambda>a b. rating b \<le> rating a) (sort_final_results final_results)"
    by (simp add: sort_final_results_def sorted_map)
  show "mset (sort_final_results final_results) = mset final_results"
    by (simp add: sort_final_results_def)
next
  fix k
  have "filter (\<lambda>x. - rating x = - k) (sort_key (\<lambda>x. - rating x) final_results)
      = filter (\<lambda>x. - rating x = - k) final_results"
    by (rule sort_key_stable)
  then show "filter (\<lambda>x. rating x = k) (sort_final_results final_results)
      = filter (\<lambda>x. rating x = k) final_results"
    by (simp add: sort_final_results_def)
next
  show "sort_final_results [rated_deal ''first'' 5, rated_deal ''second'' 8, rated_deal ''third'' 5]
     = [rated_deal ''second'' 8, rated_deal ''first'' 5, rated_deal ''third'' 5]"
    by (simp add: sort_final_results_def rated_deal_def)
qed

end
